theory Spec2Isabelle
  imports Complex_Main "HOL-Library.Sublist"
begin

section \<open>Proctoring service: calibration, classification and alert deduplication\<close>

text \<open>
  A shallow embedding of the hand-written logic of the Python service:
  \<^verbatim>\<open>calibration_service.py\<close>, \<^verbatim>\<open>calibration_service_optimized.py\<close>,
  \<^verbatim>\<open>audio_analyzer.py\<close>, \<^verbatim>\<open>audio_analyzer_optimized.py\<close> and
  \<^verbatim>\<open>face_analyzer.py\<close>.

  Python floats are modelled as \<^typ>\<open>real\<close> with exact arithmetic, except in the
  double-precision versions of the threshold functions, which round every operation.
  The results of the signal-processing and face-recognition libraries (RMS
  energy, FFT band energies, voice-activity flags, face locations, landmarks, encodings)
  are inputs of the model.
\<close>

subsection \<open>Volume thresholds\<close>

text \<open>
  The dictionary \<^verbatim>\<open>noise_analysis\<close> as far as the threshold calculation reads it, and
  the dictionary of thresholds that it returns.
\<close>

record noise_analysis =
  rms_energy :: real
  noise_floor :: real
  noise_ceiling :: real

record thresholds =
  low :: real
  medium :: real
  high :: real
  th_noise_floor :: real
  th_noise_ceiling :: real

text \<open>\<^verbatim>\<open>CalibrationService._calculate_thresholds\<close>, with \<^verbatim>\<open>min_separation = 0.01\<close>.\<close>

definition calculate_thresholds :: "noise_analysis \<Rightarrow> thresholds" where
  "calculate_thresholds na =
     (let low_threshold = noise_floor na * 2;
          medium_threshold = noise_floor na + (noise_ceiling na - noise_floor na) * (6 / 10);
          high_threshold = noise_ceiling na * (15 / 10);
          min_separation = 1 / 100;
          medium_threshold =
            (if medium_threshold - low_threshold < min_separation
             then low_threshold + min_separation else medium_threshold);
          high_threshold =
            (if high_threshold - medium_threshold < min_separation
             then medium_threshold + min_separation else high_threshold)
      in \<lparr>low = low_threshold, medium = medium_threshold, high = high_threshold,
          th_noise_floor = noise_floor na, th_noise_ceiling = noise_ceiling na\<rparr>)"

text \<open>
  \<^verbatim>\<open>OptimizedCalibrationService._fast_calculate_thresholds\<close>, with
  \<^verbatim>\<open>min_separation = 0.001\<close>.
\<close>

definition fast_calculate_thresholds :: "noise_analysis \<Rightarrow> thresholds" where
  "fast_calculate_thresholds na =
     (let low_threshold = noise_floor na * 2;
          medium_threshold = noise_floor na + (noise_ceiling na - noise_floor na) * (6 / 10);
          high_threshold = noise_ceiling na * (15 / 10);
          min_separation = 1 / 1000;
          medium_threshold =
            (if medium_threshold - low_threshold < min_separation
             then low_threshold + min_separation else medium_threshold);
          high_threshold =
            (if high_threshold - medium_threshold < min_separation
             then medium_threshold + min_separation else high_threshold)
      in \<lparr>low = low_threshold, medium = medium_threshold, high = high_threshold,
          th_noise_floor = noise_floor na, th_noise_ceiling = noise_ceiling na\<rparr>)"

subsection \<open>The thresholds in double precision\<close>

text \<open>
  The threshold functions receive Python floats (the noise analysis stores
  \<^verbatim>\<open>float(noise_floor)\<close> and \<^verbatim>\<open>float(noise_ceiling)\<close>) and compute in IEEE double
  precision: every operation rounds its exact result to the nearest double, a tie to
  the even significand. A double in the normal range is an integer of 53 bits times a
  power of two. Overflow and subnormal numbers are not modelled; the energies of audio
  samples are far from both.

  \<open>bit_length n\<close> is the number of binary digits of \<open>n\<close>, and \<open>binade x\<close>, for
  \<open>x > 0\<close>, is the exponent \<open>e\<close> with \<open>2 ^ e \<le> x < 2 ^ (e + 1)\<close>.
\<close>

fun bit_length :: "nat \<Rightarrow> nat" where
  "bit_length n = (if n = 0 then 0 else Suc (bit_length (n div 2)))"

declare bit_length.simps [simp del]

definition binade :: "real \<Rightarrow> int" where
  "binade x =
     (if x \<ge> 1 then int (bit_length (nat \<lfloor>x\<rfloor>)) - 1
      else - int (bit_length (nat (\<lceil>1 / x\<rceil> - 1))))"

definition pow2 :: "int \<Rightarrow> real" where
  "pow2 k = (if 0 \<le> k then 2 ^ nat k else 1 / 2 ^ nat (- k))"

definition round_half_even :: "real \<Rightarrow> int" where
  "round_half_even x =
     (let f = \<lfloor>x\<rfloor>
      in if x - of_int f < 1 / 2 then f
         else if x - of_int f > 1 / 2 then f + 1
         else if even f then f else f + 1)"

text \<open>The double nearest to a real number.\<close>

definition f64 :: "real \<Rightarrow> real" where
  "f64 x =
     (if x = 0 then 0
      else let ulp = pow2 (binade \<bar>x\<bar> - 52)
           in of_int (round_half_even (x / ulp)) * ulp)"

text \<open>
  \<^verbatim>\<open>CalibrationService._calculate_thresholds\<close> statement by statement in double
  precision. The literals \<^verbatim>\<open>2.0\<close> and \<^verbatim>\<open>1.5\<close> are doubles; \<^verbatim>\<open>0.6\<close> and \<^verbatim>\<open>0.01\<close>
  stand for the doubles nearest to them.
\<close>

definition calculate_thresholds_double :: "noise_analysis \<Rightarrow> thresholds" where
  "calculate_thresholds_double na =
     (let low_threshold = f64 (noise_floor na * 2);
          medium_threshold =
            f64 (noise_floor na + f64 (f64 (noise_ceiling na - noise_floor na) * f64 (6 / 10)));
          high_threshold = f64 (noise_ceiling na * (15 / 10));
          min_separation = f64 (1 / 100);
          medium_threshold =
            (if f64 (medium_threshold - low_threshold) < min_separation
             then f64 (low_threshold + min_separation) else medium_threshold);
          high_threshold =
            (if f64 (high_threshold - medium_threshold) < min_separation
             then f64 (medium_threshold + min_separation) else high_threshold)
      in \<lparr>low = low_threshold, medium = medium_threshold, high = high_threshold,
          th_noise_floor = noise_floor na, th_noise_ceiling = noise_ceiling na\<rparr>)"

text \<open>
  \<^verbatim>\<open>OptimizedCalibrationService._fast_calculate_thresholds\<close> in double precision, with
  \<^verbatim>\<open>min_separation = 0.001\<close>.
\<close>

definition fast_calculate_thresholds_double :: "noise_analysis \<Rightarrow> thresholds" where
  "fast_calculate_thresholds_double na =
     (let low_threshold = f64 (noise_floor na * 2);
          medium_threshold =
            f64 (noise_floor na + f64 (f64 (noise_ceiling na - noise_floor na) * f64 (6 / 10)));
          high_threshold = f64 (noise_ceiling na * (15 / 10));
          min_separation = f64 (1 / 1000);
          medium_threshold =
            (if f64 (medium_threshold - low_threshold) < min_separation
             then f64 (low_threshold + min_separation) else medium_threshold);
          high_threshold =
            (if f64 (high_threshold - medium_threshold) < min_separation
             then f64 (medium_threshold + min_separation) else high_threshold)
      in \<lparr>low = low_threshold, medium = medium_threshold, high = high_threshold,
          th_noise_floor = noise_floor na, th_noise_ceiling = noise_ceiling na\<rparr>)"

subsection \<open>Volume classification\<close>

datatype level = Low | Medium | High

text \<open>The order \<open>low < medium < high\<close> of the three levels.\<close>

fun level_rank :: "level \<Rightarrow> nat" where
  "level_rank Low = 0"
| "level_rank Medium = 1"
| "level_rank High = 2"

text \<open>
  \<^verbatim>\<open>AudioAnalyzer._analyze_volume\<close> and \<^verbatim>\<open>OptimizedAudioAnalyzer._fast_analyze_volume\<close>,
  from the RMS energy \<^verbatim>\<open>np.sqrt(np.mean(audio_array**2))\<close> of the clip and the
  thresholds of the calibration. The threshold \<^verbatim>\<open>high\<close> is not read.
\<close>

definition analyze_volume :: "real \<Rightarrow> thresholds \<Rightarrow> level" where
  "analyze_volume rms th =
     (if rms < low th then Low
      else if rms < medium th then Medium
      else High)"

definition fast_analyze_volume :: "real \<Rightarrow> thresholds \<Rightarrow> level" where
  "fast_analyze_volume rms th =
     (if rms < low th then Low
      else if rms < medium th then Medium
      else High)"

subsection \<open>Speech aggregation\<close>

text \<open>
  The frame loop of \<^verbatim>\<open>_detect_speech\<close>: each frame is the answer of the voice-activity
  detector, \<open>Some b\<close> when \<^verbatim>\<open>vad.is_speech\<close> returns \<open>b\<close> and \<open>None\<close> when it raises.
  The loop counts \<^verbatim>\<open>speech_frames\<close> and \<^verbatim>\<open>total_frames\<close>; an exception leaves it.
\<close>

fun count_frames :: "bool option list \<Rightarrow> nat \<Rightarrow> nat \<Rightarrow> (nat \<times> nat) option" where
  "count_frames [] speech_frames total_frames = Some (speech_frames, total_frames)"
| "count_frames (None # fs) speech_frames total_frames = None"
| "count_frames (Some is_speech # fs) speech_frames total_frames =
     count_frames fs (if is_speech then speech_frames + 1 else speech_frames) (total_frames + 1)"

text \<open>
  \<^verbatim>\<open>AudioAnalyzer._detect_speech\<close>: the ratio is 0 when there is no frame, and the
  handler of the \<^verbatim>\<open>try\<close> block returns \<^verbatim>\<open>False\<close>.
\<close>

definition detect_speech :: "bool option list \<Rightarrow> bool" where
  "detect_speech frames =
     (case count_frames frames 0 0 of
        None \<Rightarrow> False
      | Some (speech_frames, total_frames) \<Rightarrow>
          (let speech_ratio =
                 (if total_frames > 0 then real speech_frames / real total_frames else 0)
           in speech_ratio > 3 / 10))"

text \<open>\<^verbatim>\<open>OptimizedAudioAnalyzer._fast_detect_speech\<close>, the same aggregation.\<close>

definition fast_detect_speech :: "bool option list \<Rightarrow> bool" where
  "fast_detect_speech frames =
     (case count_frames frames 0 0 of
        None \<Rightarrow> False
      | Some (speech_frames, total_frames) \<Rightarrow>
          (let speech_ratio =
                 (if total_frames > 0 then real speech_frames / real total_frames else 0)
           in speech_ratio > 3 / 10))"

text \<open>The number of frames that the detector marked as speech.\<close>

definition speech_count :: "bool list \<Rightarrow> nat" where
  "speech_count flags = length (filter (\<lambda>b. b) flags)"

subsection \<open>Baseline percentiles and calibration\<close>

text \<open>
  \<^verbatim>\<open>np.percentile(frame_energies, q)\<close> with numpy's default linear interpolation: the
  value at the virtual index \<open>(n - 1) * q / 100\<close> of the sorted array, interpolated
  between its two neighbours. An empty array has no percentile (numpy raises or yields
  NaN, depending on its version): \<open>None\<close>.
\<close>

definition percentile :: "real list \<Rightarrow> real \<Rightarrow> real option" where
  "percentile a q =
     (if a = [] then None
      else
        let arr = sort a;
            values_count = length arr;
            virtual_index = real (values_count - 1) * (q / 100);
            previous_index = nat \<lfloor>virtual_index\<rfloor>;
            next_index = min (previous_index + 1) (values_count - 1);
            gamma = virtual_index - real previous_index
        in Some (arr ! previous_index + (arr ! next_index - arr ! previous_index) * gamma))"

text \<open>
  The part of \<^verbatim>\<open>_analyze_background_noise\<close> (and of \<^verbatim>\<open>_fast_noise_analysis\<close>) that the
  thresholds depend on: the 10th and 90th percentile of the per-window RMS energies.
  The windows are cut and measured by numpy; their energies are the input here.
\<close>

definition analyze_background_noise :: "real \<Rightarrow> real list \<Rightarrow> noise_analysis option" where
  "analyze_background_noise rms frame_energies =
     (case percentile frame_energies 10 of
        None \<Rightarrow> None
      | Some floor_value \<Rightarrow>
          (case percentile frame_energies 90 of
             None \<Rightarrow> None
           | Some ceiling_value \<Rightarrow>
               Some \<lparr>rms_energy = rms, noise_floor = floor_value,
                     noise_ceiling = ceiling_value\<rparr>))"

text \<open>
  \<^verbatim>\<open>CalibrationService.calibrate\<close> and \<^verbatim>\<open>OptimizedCalibrationService.calibrate\<close> as far
  as the thresholds go: noise analysis, then thresholds. \<open>None\<close> stands for a run
  without usable thresholds.
\<close>

definition calibrate :: "real \<Rightarrow> real list \<Rightarrow> thresholds option" where
  "calibrate rms frame_energies =
     map_option calculate_thresholds (analyze_background_noise rms frame_energies)"

definition fast_calibrate :: "real \<Rightarrow> real list \<Rightarrow> thresholds option" where
  "fast_calibrate rms frame_energies =
     map_option fast_calculate_thresholds (analyze_background_noise rms frame_energies)"

subsection \<open>Background sound rules\<close>

text \<open>
  The band energies are numpy floats: a division by zero does not raise, it yields NaN
  for \<open>0 / 0\<close> and an infinity otherwise, and every comparison with NaN is false.
\<close>

datatype npfloat = Fin real | PInf | NInf | NaN

definition np_div :: "real \<Rightarrow> real \<Rightarrow> npfloat" where
  "np_div x y =
     (if y \<noteq> 0 then Fin (x / y)
      else if x = 0 then NaN
      else if x > 0 then PInf
      else NInf)"

fun np_gt :: "npfloat \<Rightarrow> real \<Rightarrow> bool" where
  "np_gt (Fin v) c = (v > c)"
| "np_gt PInf c = True"
| "np_gt NInf c = False"
| "np_gt NaN c = False"

text \<open>
  What \<^verbatim>\<open>_fast_detect_background_sounds\<close> computes from the FFT before it applies its
  rules: the three band energies (sums of magnitudes), the frequency-weighted sum of
  the magnitudes, and the zero-crossing rate.
\<close>

record band_features =
  low_energy :: real
  mid_energy :: real
  high_energy :: real
  weighted_sum :: real
  zcr :: real

definition total_band_energy :: "band_features \<Rightarrow> real" where
  "total_band_energy f = low_energy f + mid_energy f + high_energy f"

definition fast_spectral_centroid :: "band_features \<Rightarrow> real" where
  "fast_spectral_centroid f =
     (if total_band_energy f > 0 then weighted_sum f / total_band_energy f else 0)"

text \<open>
  The rules of \<^verbatim>\<open>_fast_detect_background_sounds\<close>, with \<^verbatim>\<open>total_energy\<close> and
  \<^verbatim>\<open>spectral_centroid\<close> as computed above. The three ratios are divided without a
  check of the total energy.
\<close>

definition fast_detect_background_sounds :: "band_features \<Rightarrow> string list" where
  "fast_detect_background_sounds f =
     (let total_energy = total_band_energy f;
          spectral_centroid = fast_spectral_centroid f
      in (if zcr f > 1 / 10 \<and> 1000 < spectral_centroid \<and> spectral_centroid < 4000
          then [''typing''] else [])
       @ (if np_gt (np_div (mid_energy f) total_energy) (7 / 10)
          then [''phone''] else [])
       @ (if spectral_centroid < 500 \<and> np_gt (np_div (low_energy f) total_energy) (6 / 10)
          then [''door''] else [])
       @ (if zcr f > 5 / 100 \<and> np_gt (np_div (mid_energy f) total_energy) (5 / 10)
          then [''mechanical''] else []))"

text \<open>
  \<^verbatim>\<open>AudioAnalyzer._detect_phone_frequencies\<close>, from the energy of the voice band and the
  total energy of the spectrum.
\<close>

definition detect_phone_frequencies :: "real \<Rightarrow> real \<Rightarrow> bool" where
  "detect_phone_frequencies voice_energy total_energy =
     (if total_energy > 0 then voice_energy / total_energy > 7 / 10 else False)"

text \<open>
  The ratio as the specification words it, 0 when the total energy is 0, and the rule
  table of the specification stated with it.
\<close>

definition guarded_ratio :: "real \<Rightarrow> real \<Rightarrow> real" where
  "guarded_ratio band_energy total_energy =
     (if total_energy = 0 then 0 else band_energy / total_energy)"

definition spec_sound_rules :: "real \<Rightarrow> real \<Rightarrow> real \<Rightarrow> real \<Rightarrow> real \<Rightarrow> string list" where
  "spec_sound_rules zero_crossing_rate spectral_centroid band_low band_mid band_high =
     (let total_energy = band_low + band_mid + band_high
      in (if zero_crossing_rate > 1 / 10 \<and> 1000 < spectral_centroid \<and> spectral_centroid < 4000
          then [''typing''] else [])
       @ (if guarded_ratio band_mid total_energy > 7 / 10 then [''phone''] else [])
       @ (if spectral_centroid < 500 \<and> guarded_ratio band_low total_energy > 6 / 10
          then [''door''] else [])
       @ (if zero_crossing_rate > 5 / 100 \<and> guarded_ratio band_mid total_energy > 5 / 10
          then [''mechanical''] else []))"

subsection \<open>Alert deduplication\<close>

text \<open>
  One entry of \<^verbatim>\<open>self.last_alert_state\<close>, and the dictionary itself, keyed by the
  string \<^verbatim>\<open>f"{user_id}_{alert_type}"\<close>.
\<close>

record alert_state =
  last_time :: real
  active :: bool

type_synonym alert_states = "string \<rightharpoonup> alert_state"

definition alert_key :: "string \<Rightarrow> string \<Rightarrow> string" where
  "alert_key user_id alert_type = user_id @ ''_'' @ alert_type"

definition ALERT_COOLDOWN :: real where
  "ALERT_COOLDOWN = 30"

text \<open>\<^verbatim>\<open>self.last_alert_state.get(key, {"last_time": 0, "active": False})\<close>\<close>

definition get_state :: "alert_states \<Rightarrow> string \<Rightarrow> alert_state" where
  "get_state states key =
     (case states key of
        None \<Rightarrow> \<lparr>last_time = 0, active = False\<rparr>
      | Some state \<Rightarrow> state)"

text \<open>
  \<^verbatim>\<open>FaceAnalyzer.should_trigger_alert\<close>. The reading \<open>now\<close> of the clock is an argument;
  the result is the returned flag and the dictionary after the call.
\<close>

definition should_trigger_alert ::
  "real \<Rightarrow> alert_states \<Rightarrow> string \<Rightarrow> string \<Rightarrow> bool \<Rightarrow> bool \<times> alert_states" where
  "should_trigger_alert now states user_id alert_type condition_active =
     (let key = alert_key user_id alert_type;
          state = get_state states key
      in if condition_active then
           if \<not> active state then
             (True, states(key \<mapsto> \<lparr>last_time = now, active = True\<rparr>))
           else if now - last_time state > ALERT_COOLDOWN then
             (True, states(key \<mapsto> \<lparr>last_time = now, active = True\<rparr>))
           else (False, states)
         else (False, states(key \<mapsto> \<lparr>last_time = now, active = False\<rparr>)))"

text \<open>
  \<^verbatim>\<open>FaceAnalyzer.cleanup_alert_states\<close>: every key that starts with
  \<^verbatim>\<open>f"{user_id}_"\<close> is deleted.
\<close>

definition cleanup_alert_states :: "alert_states \<Rightarrow> string \<Rightarrow> alert_states" where
  "cleanup_alert_states states user_id =
     (\<lambda>key. if prefix (user_id @ ''_'') key then None else states key)"

text \<open>The alert types that \<^verbatim>\<open>analyze_frame\<close> passes to the deduplicator.\<close>

definition face_alert_types :: "string list" where
  "face_alert_types =
     [''Face not detected'', ''Multiple faces found'',
      ''Face partially blocked'', ''Face mismatch detected'']"

text \<open>
  An entry belongs to a subject when its key is the key of that subject for one of the
  alert types.
\<close>

definition belongs_to :: "string \<Rightarrow> string \<Rightarrow> bool" where
  "belongs_to user_id key = (\<exists>alert_type \<in> set face_alert_types. key = alert_key user_id alert_type)"

subsection \<open>Frame analysis\<close>

text \<open>
  What the libraries answer for one frame. \<^verbatim>\<open>cv2.imdecode\<close> raises, returns
  \<^verbatim>\<open>None\<close> or returns an image; the colour conversion and the face detector may raise;
  \<open>face_landmarks\<close> holds, for each face, the numbers of points of its left and of its
  right eye; \<open>reference_encoding\<close> says whether \<^verbatim>\<open>get_reference_face\<close> found an
  encoding; the face matching raises, finds no encoding in the frame, or measures a
  distance; \<open>frame_saved\<close> says whether \<^verbatim>\<open>_save_violation_frame\<close> returned a path.
\<close>

datatype decode_outcome = DecodeRaises | DecodeNone | Decoded

datatype matching_outcome = MatchingRaises | NoEncoding | FaceDistance real

record frame_observation =
  decode :: decode_outcome
  detection_raises :: bool
  face_count :: nat
  face_landmarks :: "(nat \<times> nat) list"
  reference_encoding :: bool
  face_matching :: matching_outcome
  frame_saved :: bool

text \<open>The entries \<^verbatim>\<open>status\<close> and \<^verbatim>\<open>violations\<close> of the returned dictionary.\<close>

record analysis_result =
  status :: string
  violations :: "string list"

datatype frame_exception = FrameException

text \<open>
  One conditional call of the deduplicator as \<^verbatim>\<open>analyze_frame\<close> writes it: with
  \<^verbatim>\<open>True\<close> the alert type is appended to the violations when the call returns
  \<^verbatim>\<open>True\<close>; with \<^verbatim>\<open>False\<close> the returned flag is dropped.
\<close>

definition check_condition ::
  "real \<Rightarrow> string \<Rightarrow> string \<Rightarrow> bool \<Rightarrow> string list \<times> alert_states
     \<Rightarrow> string list \<times> alert_states" where
  "check_condition now user_id alert_type condition_active acc =
     (let (violations, states) = acc;
          (trigger, states') =
             should_trigger_alert now states user_id alert_type condition_active
      in if condition_active \<and> trigger then (violations @ [alert_type], states')
         else (violations, states'))"

text \<open>
  The checks of \<^verbatim>\<open>analyze_frame\<close> on a decoded frame with at least one face, block by
  block in the order of the source. \<open>clock k\<close> is the time that the \<open>k\<close>-th check reads.
  First the check for multiple faces.
\<close>

definition check_multiple_faces ::
  "(nat \<Rightarrow> real) \<Rightarrow> frame_observation \<Rightarrow> string \<Rightarrow> string list \<times> alert_states
     \<Rightarrow> string list \<times> alert_states" where
  "check_multiple_faces clock obs user_id acc =
     (if face_count obs > 1
      then check_condition (clock 1) user_id ''Multiple faces found'' True acc
      else check_condition (clock 1) user_id ''Multiple faces found'' False acc)"

text \<open>
  The check for a blocked face, on the landmarks of the first face; it is skipped when
  there are no landmarks.
\<close>

definition check_face_blocked ::
  "(nat \<Rightarrow> real) \<Rightarrow> frame_observation \<Rightarrow> string \<Rightarrow> string list \<times> alert_states
     \<Rightarrow> string list \<times> alert_states" where
  "check_face_blocked clock obs user_id acc =
     (case face_landmarks obs of
        [] \<Rightarrow> acc
      | (left_eye, right_eye) # _ \<Rightarrow>
          if left_eye < 6 \<or> right_eye < 6
          then check_condition (clock 2) user_id ''Face partially blocked'' True acc
          else check_condition (clock 2) user_id ''Face partially blocked'' False acc)"

text \<open>
  The face matching; it is skipped when there is no reference encoding, when the face
  of the frame cannot be encoded, and when the matching raises (the inner handler logs
  the exception and the analysis goes on).
\<close>

definition check_face_mismatch ::
  "(nat \<Rightarrow> real) \<Rightarrow> frame_observation \<Rightarrow> string \<Rightarrow> string list \<times> alert_states
     \<Rightarrow> string list \<times> alert_states" where
  "check_face_mismatch clock obs user_id acc =
     (if reference_encoding obs then
        (case face_matching obs of
           MatchingRaises \<Rightarrow> acc
         | NoEncoding \<Rightarrow> acc
         | FaceDistance face_distance \<Rightarrow>
             if face_distance > 6 / 10
             then check_condition (clock 3) user_id ''Face mismatch detected'' True acc
             else check_condition (clock 3) user_id ''Face mismatch detected'' False acc)
      else acc)"

text \<open>
  All checks of one frame: without a face only the check for a missing face runs, with
  \<^verbatim>\<open>True\<close>; otherwise that condition is reset and the three other checks follow.
\<close>

definition face_checks ::
  "(nat \<Rightarrow> real) \<Rightarrow> alert_states \<Rightarrow> frame_observation \<Rightarrow> string
     \<Rightarrow> string list \<times> alert_states" where
  "face_checks clock states obs user_id =
     (if face_count obs = 0 then
        check_condition (clock 0) user_id ''Face not detected'' True ([], states)
      else
        check_face_mismatch clock obs user_id
          (check_face_blocked clock obs user_id
             (check_multiple_faces clock obs user_id
                (check_condition (clock 0) user_id ''Face not detected'' False ([], states)))))"

text \<open>
  What a run of the body of \<^verbatim>\<open>analyze_frame\<close> ends in: it returns a dictionary, it
  raises, or it never returns.
\<close>

datatype frame_outcome = Returns analysis_result | Raises frame_exception | Hangs

text \<open>
  \<^verbatim>\<open>face_analysis_logger.log_analysis_complete\<close> takes \<^verbatim>\<open>log_lock\<close>, a
  \<^verbatim>\<open>threading.Lock\<close>, and with violations calls \<^verbatim>\<open>log_violation\<close> inside it, which
  takes the same lock again. The lock is not re-entrant: the call returns only when the
  list of violations is empty. The model is of a call that finds the lock free.
\<close>

definition log_analysis_complete_returns :: "string list \<Rightarrow> bool" where
  "log_analysis_complete_returns found = (found = [])"

text \<open>
  The body of the \<^verbatim>\<open>try\<close> block of \<^verbatim>\<open>analyze_frame\<close>. In every case the alert
  states are as the checks left them. When there are violations and the frame could not
  be saved, \<^verbatim>\<open>log_frame_saved\<close> raises on the missing path; otherwise the result is
  built and \<^verbatim>\<open>log_analysis_complete\<close> is called before it is returned.
\<close>

definition analyze_frame_body ::
  "(nat \<Rightarrow> real) \<Rightarrow> alert_states \<Rightarrow> frame_observation \<Rightarrow> string
     \<Rightarrow> frame_outcome \<times> alert_states" where
  "analyze_frame_body clock states obs user_id =
     (case decode obs of
        DecodeRaises \<Rightarrow> (Raises FrameException, states)
      | DecodeNone \<Rightarrow> (Returns \<lparr>status = ''error'', violations = []\<rparr>, states)
      | Decoded \<Rightarrow>
          if detection_raises obs then (Raises FrameException, states)
          else
            let (found, states') = face_checks clock states obs user_id;
                should_save = (length found > 0)
            in if should_save \<and> \<not> frame_saved obs then (Raises FrameException, states')
               else if \<not> log_analysis_complete_returns found then (Hangs, states')
               else (Returns \<lparr>status = ''success'', violations = found\<rparr>, states'))"

text \<open>
  \<^verbatim>\<open>FaceAnalyzer.analyze_frame\<close>: the body under its handler, which turns an exception
  into an error dictionary. The result is \<open>None\<close> when the call never returns.
\<close>

definition analyze_frame ::
  "(nat \<Rightarrow> real) \<Rightarrow> alert_states \<Rightarrow> frame_observation \<Rightarrow> string
     \<Rightarrow> analysis_result option \<times> alert_states" where
  "analyze_frame clock states obs user_id =
     (case analyze_frame_body clock states obs user_id of
        (Returns result, states') \<Rightarrow> (Some result, states')
      | (Raises e, states') \<Rightarrow> (Some \<lparr>status = ''error'', violations = []\<rparr>, states')
      | (Hangs, states') \<Rightarrow> (None, states'))"

section \<open>Properties\<close>

lemma count_frames_flags:
  "count_frames (map Some flags) s t = Some (s + speech_count flags, t + length flags)"
  by (induction flags arbitrary: s t) (simp_all add: speech_count_def)

text \<open>
  Claim C9. Volume classification is monotonic in the RMS energy: for a fixed calibration
  profile and \<open>rms1 \<le> rms2\<close>, the level of \<open>rms1\<close> is at most the level of \<open>rms2\<close> in
  the order low < medium < high. This holds for both analyzers and for every profile.
\<close>

theorem analyze_volume_monotonic:
  assumes "rms1 \<le> rms2"
  shows "level_rank (analyze_volume rms1 th) \<le> level_rank (analyze_volume rms2 th)
       \<and> level_rank (fast_analyze_volume rms1 th) \<le> level_rank (fast_analyze_volume rms2 th)"
  using assms by (simp add: analyze_volume_def fast_analyze_volume_def)

theorem analyze_volume_monotonic_witness:
  "(3 / 100 :: real) \<le> 4 / 100
   \<and> level_rank (analyze_volume (3 / 100)
        \<lparr>low = 2 / 100, medium = 34 / 1000, high = 75 / 1000,
         th_noise_floor = 1 / 100, th_noise_ceiling = 5 / 100\<rparr>) = 1
   \<and> level_rank (analyze_volume (4 / 100)
        \<lparr>low = 2 / 100, medium = 34 / 1000, high = 75 / 1000,
         th_noise_floor = 1 / 100, th_noise_ceiling = 5 / 100\<rparr>) = 2"
  using analyze_volume_monotonic [of "3 / 100" "4 / 100"
      "\<lparr>low = 2 / 100, medium = 34 / 1000, high = 75 / 1000,
        th_noise_floor = 1 / 100, th_noise_ceiling = 5 / 100\<rparr>"]
  by (simp add: analyze_volume_def)

text \<open>
  Claim C8. For every sequence of per-frame speech flags, speech aggregation returns
  false when there is no frame, and otherwise returns true exactly when the number of
  speech frames divided by the number of frames is strictly greater than 0.3; a ratio
  of exactly 0.3 gives false. Both analyzers aggregate in the same way.
\<close>

theorem detect_speech_ratio:
  "detect_speech (map Some flags) =
     (if length flags = 0 then False
      else real (speech_count flags) / real (length flags) > 3 / 10)
   \<and> fast_detect_speech (map Some flags) =
     (if length flags = 0 then False
      else real (speech_count flags) / real (length flags) > 3 / 10)"
  by (simp add: detect_speech_def fast_detect_speech_def count_frames_flags)

theorem detect_speech_ratio_witness:
  "detect_speech (map Some []) = False
   \<and> detect_speech
        (map Some [True, True, True, False, False, False, False, False, False, False]) = False
   \<and> detect_speech (map Some [True, True, False, False, False]) = True"
  using detect_speech_ratio [of "[]"]
    detect_speech_ratio [of "[True, True, True, False, False, False, False, False, False, False]"]
    detect_speech_ratio [of "[True, True, False, False, False]"]
  by (simp add: speech_count_def)

lemma calculate_thresholds_sep:
  "medium (calculate_thresholds na) - low (calculate_thresholds na) \<ge> 1 / 100"
  "high (calculate_thresholds na) - medium (calculate_thresholds na) \<ge> 1 / 100"
  by (simp_all add: calculate_thresholds_def Let_def)

lemma fast_calculate_thresholds_sep:
  "medium (fast_calculate_thresholds na) - low (fast_calculate_thresholds na) \<ge> 1 / 1000"
  "high (fast_calculate_thresholds na) - medium (fast_calculate_thresholds na) \<ge> 1 / 1000"
  by (simp_all add: fast_calculate_thresholds_def Let_def)

text \<open>
  In exact arithmetic the thresholds are ordered, with separations of at least the
  minimum, for every noise floor and ceiling.
\<close>

lemma thresholds_ordered_exact:
  "low (calculate_thresholds na) < medium (calculate_thresholds na)
   \<and> medium (calculate_thresholds na) < high (calculate_thresholds na)
   \<and> medium (calculate_thresholds na) - low (calculate_thresholds na) \<ge> 1 / 100
   \<and> high (calculate_thresholds na) - medium (calculate_thresholds na) \<ge> 1 / 100
   \<and> low (fast_calculate_thresholds na) < medium (fast_calculate_thresholds na)
   \<and> medium (fast_calculate_thresholds na) < high (fast_calculate_thresholds na)
   \<and> medium (fast_calculate_thresholds na) - low (fast_calculate_thresholds na) \<ge> 1 / 1000
   \<and> high (fast_calculate_thresholds na) - medium (fast_calculate_thresholds na) \<ge> 1 / 1000"
  using calculate_thresholds_sep [of na] fast_calculate_thresholds_sep [of na]
  by linarith

text \<open>The rounding function on some decimal literals and on two exact doubles.\<close>

lemma f64_examples:
  "f64 (1 / 10) = 3602879701896397 / 36028797018963968"
  "f64 (1 / 100) = 5764607523034235 / 576460752303423488"
  "f64 (1 / 1000) = 1152921504606847 / 1152921504606846976"
  "f64 (6 / 10) = 5404319552844595 / 9007199254740992"
  "f64 (1 / 32) = 1 / 32"
  "f64 (3 / 2) = 3 / 2"
  by (simp_all add: f64_def binade_def bit_length.simps pow2_def round_half_even_def Let_def)

text \<open>
  Claim C3 says that the thresholds of every valid baseline are ordered with
  \<open>medium - low\<close> and \<open>high - medium\<close> at least the minimum separation, 0.01 in the
  full service and 0.001 in the optimized one. In the double arithmetic of the code the
  separation is missed by a rounding error. For a baseline whose windows all have the
  energy 1/32, the full service returns \<open>low = 0.0625\<close>, \<open>medium = 0.0725\<close> and
  \<open>high = 0.08249999999999999\<close>: both differences are 0.009999999999999995, below
  0.01 as real numbers and as doubles. For a baseline of constant energy 1/2 the
  optimized service returns 1.0, 1.001 and 1.0019999999999998: both differences are
  0.0009999999999998899, below 0.001.
\<close>

theorem thresholds_separation_double:
  "calculate_thresholds_double
     \<lparr>rms_energy = 1 / 32, noise_floor = 1 / 32, noise_ceiling = 1 / 32\<rparr>
     = \<lparr>low = 1 / 16, medium = 5224175567749775 / 72057594037927936,
        high = 2972375754064527 / 36028797018963968,
        th_noise_floor = 1 / 32, th_noise_ceiling = 1 / 32\<rparr>
   \<and> (5224175567749775 / 72057594037927936 - 1 / 16 :: real) < 1 / 100
   \<and> f64 (5224175567749775 / 72057594037927936 - 1 / 16) < f64 (1 / 100)
   \<and> (2972375754064527 / 36028797018963968 - 5224175567749775 / 72057594037927936 :: real)
        < 1 / 100
   \<and> f64 (2972375754064527 / 36028797018963968 - 5224175567749775 / 72057594037927936)
        < f64 (1 / 100)
   \<and> fast_calculate_thresholds_double
     \<lparr>rms_energy = 1 / 2, noise_floor = 1 / 2, noise_ceiling = 1 / 2\<rparr>
     = \<lparr>low = 1, medium = 2254051613498933 / 2251799813685248,
        high = 1128151706656309 / 1125899906842624,
        th_noise_floor = 1 / 2, th_noise_ceiling = 1 / 2\<rparr>
   \<and> (2254051613498933 / 2251799813685248 - 1 :: real) < 1 / 1000
   \<and> f64 (2254051613498933 / 2251799813685248 - 1) < f64 (1 / 1000)
   \<and> (1128151706656309 / 1125899906842624 - 2254051613498933 / 2251799813685248 :: real)
        < 1 / 1000
   \<and> f64 (1128151706656309 / 1125899906842624 - 2254051613498933 / 2251799813685248)
        < f64 (1 / 1000)"
  by (simp add: calculate_thresholds_double_def fast_calculate_thresholds_double_def
      f64_def binade_def bit_length.simps pow2_def round_half_even_def Let_def)

text \<open>
  Claim C5, as stated: with noise floor 0.01 and noise ceiling 0.05 a tick of RMS 0.04
  would classify as medium. It does not: 0.04 is not below the medium threshold 0.034.
\<close>

theorem scenario_level_counterexample:
  "analyze_volume (4 / 100)
     (calculate_thresholds
        \<lparr>rms_energy = 3 / 100, noise_floor = 1 / 100, noise_ceiling = 5 / 100\<rparr>)
   \<noteq> Medium"
  by (simp add: analyze_volume_def calculate_thresholds_def Let_def)

text \<open>
  Claim C5, amended. With noise floor 0.01 and noise ceiling 0.05 both services derive
  \<open>low = 0.02\<close>, \<open>medium = 0.034\<close>, \<open>high = 0.075\<close>, and both analyzers classify a tick
  of RMS 0.04 against that profile as high.
\<close>

theorem scenario_thresholds_and_level:
  "calculate_thresholds \<lparr>rms_energy = r, noise_floor = 1 / 100, noise_ceiling = 5 / 100\<rparr>
     = \<lparr>low = 2 / 100, medium = 34 / 1000, high = 75 / 1000,
        th_noise_floor = 1 / 100, th_noise_ceiling = 5 / 100\<rparr>
   \<and> fast_calculate_thresholds
        \<lparr>rms_energy = r, noise_floor = 1 / 100, noise_ceiling = 5 / 100\<rparr>
     = \<lparr>low = 2 / 100, medium = 34 / 1000, high = 75 / 1000,
        th_noise_floor = 1 / 100, th_noise_ceiling = 5 / 100\<rparr>
   \<and> analyze_volume (4 / 100)
        \<lparr>low = 2 / 100, medium = 34 / 1000, high = 75 / 1000,
         th_noise_floor = 1 / 100, th_noise_ceiling = 5 / 100\<rparr> = High
   \<and> fast_analyze_volume (4 / 100)
        \<lparr>low = 2 / 100, medium = 34 / 1000, high = 75 / 1000,
         th_noise_floor = 1 / 100, th_noise_ceiling = 5 / 100\<rparr> = High"
  by (simp add: analyze_volume_def fast_analyze_volume_def calculate_thresholds_def
      fast_calculate_thresholds_def Let_def)

text \<open>
  Claim C1. For every alert key the deduplicator is the one-step state machine of the
  specification. A call with an active condition on an inactive key, a key never seen
  included, emits and makes the key active with \<open>last_time = now\<close>. A call with an
  active condition on an active key emits and sets \<open>last_time = now\<close> when more than
  the cooldown has passed since \<open>last_time\<close>, and otherwise does not emit and leaves
  the entry as it was. A call with an inactive condition never emits and makes the key
  inactive.
\<close>

theorem should_trigger_alert_state_machine:
  "(\<not> active (get_state states (alert_key user_id alert_type)) \<longrightarrow>
      fst (should_trigger_alert now states user_id alert_type True)
      \<and> get_state (snd (should_trigger_alert now states user_id alert_type True))
            (alert_key user_id alert_type) = \<lparr>last_time = now, active = True\<rparr>)
   \<and> (states (alert_key user_id alert_type) = None \<longrightarrow>
      \<not> active (get_state states (alert_key user_id alert_type)))
   \<and> (active (get_state states (alert_key user_id alert_type))
       \<and> now - last_time (get_state states (alert_key user_id alert_type)) \<le> ALERT_COOLDOWN \<longrightarrow>
      \<not> fst (should_trigger_alert now states user_id alert_type True)
      \<and> snd (should_trigger_alert now states user_id alert_type True) = states)
   \<and> (active (get_state states (alert_key user_id alert_type))
       \<and> now - last_time (get_state states (alert_key user_id alert_type)) > ALERT_COOLDOWN \<longrightarrow>
      fst (should_trigger_alert now states user_id alert_type True)
      \<and> get_state (snd (should_trigger_alert now states user_id alert_type True))
            (alert_key user_id alert_type) = \<lparr>last_time = now, active = True\<rparr>)
   \<and> \<not> fst (should_trigger_alert now states user_id alert_type False)
   \<and> \<not> active (get_state (snd (should_trigger_alert now states user_id alert_type False))
            (alert_key user_id alert_type))"
  by (simp add: should_trigger_alert_def get_state_def Let_def)

theorem should_trigger_alert_state_machine_witness:
  "fst (should_trigger_alert 100 Map.empty ''u1'' ''Face not detected'' True)
   \<and> \<not> fst (should_trigger_alert 110
         (snd (should_trigger_alert 100 Map.empty ''u1'' ''Face not detected'' True))
         ''u1'' ''Face not detected'' True)
   \<and> fst (should_trigger_alert 131
         (snd (should_trigger_alert 100 Map.empty ''u1'' ''Face not detected'' True))
         ''u1'' ''Face not detected'' True)"
  using should_trigger_alert_state_machine
          [of Map.empty "''u1''" "''Face not detected''" 100]
        should_trigger_alert_state_machine
          [of "snd (should_trigger_alert 100 Map.empty ''u1'' ''Face not detected'' True)"
              "''u1''" "''Face not detected''" 110]
        should_trigger_alert_state_machine
          [of "snd (should_trigger_alert 100 Map.empty ''u1'' ''Face not detected'' True)"
              "''u1''" "''Face not detected''" 131]
  by (simp add: get_state_def ALERT_COOLDOWN_def)

text \<open>
  The entries of a subject are deleted by the cleanup, and an entry whose key does not
  start with the subject's prefix is kept as it is.
\<close>

lemma cleanup_alert_states_removed:
  "belongs_to user_id key \<Longrightarrow> cleanup_alert_states states user_id key = None"
  by (auto simp add: belongs_to_def cleanup_alert_states_def alert_key_def)

lemma cleanup_alert_states_kept:
  "\<not> prefix (user_id @ ''_'') key \<Longrightarrow> cleanup_alert_states states user_id key = states key"
  by (simp add: cleanup_alert_states_def)

text \<open>
  Claim C2 says that cleanup deletes the entries of the given subject only. The code
  deletes by string prefix: after a tick of subject \<open>a_b\<close>, cleaning up subject \<open>a\<close>
  deletes the entry of \<open>a_b\<close>, which does not belong to \<open>a\<close>.
\<close>

theorem cleanup_removes_other_subject:
  "belongs_to ''a_b'' (alert_key ''a_b'' ''Face not detected'')
   \<and> \<not> belongs_to ''a'' (alert_key ''a_b'' ''Face not detected'')
   \<and> snd (should_trigger_alert 100 Map.empty ''a_b'' ''Face not detected'' True)
        (alert_key ''a_b'' ''Face not detected'') = Some \<lparr>last_time = 100, active = True\<rparr>
   \<and> cleanup_alert_states
        (snd (should_trigger_alert 100 Map.empty ''a_b'' ''Face not detected'' True)) ''a''
        (alert_key ''a_b'' ''Face not detected'') = None"
  by (simp add: belongs_to_def face_alert_types_def alert_key_def should_trigger_alert_def
      get_state_def cleanup_alert_states_def Let_def)

text \<open>
  A comparison of a numpy ratio with a positive bound has the value of the comparison
  of the guarded ratio, when a total energy of 0 leaves no energy in the band.
\<close>

lemma np_gt_guarded:
  "0 \<le> x \<Longrightarrow> 0 \<le> t \<Longrightarrow> (t = 0 \<longrightarrow> x = 0) \<Longrightarrow> 0 < c
     \<Longrightarrow> np_gt (np_div x t) c = (guarded_ratio x t > c)"
  by (auto simp add: np_div_def guarded_ratio_def)

text \<open>
  For band energies that are sums of magnitudes, hence not negative, the optimized
  classifier returns the labels of the rule table with the ratio taken as 0 at total
  energy 0, and none of the labels phone, door and mechanical at total energy 0; the
  phone rule of the full analyzer is false at total energy 0.
\<close>

lemma sound_rules_labels:
  assumes "0 \<le> low_energy f" and "0 \<le> mid_energy f" and "0 \<le> high_energy f"
  shows "fast_detect_background_sounds f =
           spec_sound_rules (zcr f) (fast_spectral_centroid f)
             (low_energy f) (mid_energy f) (high_energy f)
       \<and> (total_band_energy f = 0 \<longrightarrow>
            ''phone'' \<notin> set (fast_detect_background_sounds f)
          \<and> ''door'' \<notin> set (fast_detect_background_sounds f)
          \<and> ''mechanical'' \<notin> set (fast_detect_background_sounds f))
       \<and> detect_phone_frequencies voice_energy 0 = False"
proof -
  let ?t = "total_band_energy f"
  have t0: "0 \<le> ?t" using assms by (simp add: total_band_energy_def)
  have z: "?t = 0 \<longrightarrow> mid_energy f = 0 \<and> low_energy f = 0"
    using assms by (auto simp add: total_band_energy_def)
  have m7: "np_gt (np_div (mid_energy f) ?t) (7 / 10) = (guarded_ratio (mid_energy f) ?t > 7 / 10)"
    using assms t0 z by (intro np_gt_guarded) auto
  have m5: "np_gt (np_div (mid_energy f) ?t) (5 / 10) = (guarded_ratio (mid_energy f) ?t > 5 / 10)"
    using assms t0 z by (intro np_gt_guarded) auto
  have l6: "np_gt (np_div (low_energy f) ?t) (6 / 10) = (guarded_ratio (low_energy f) ?t > 6 / 10)"
    using assms t0 z by (intro np_gt_guarded) auto
  have eq: "fast_detect_background_sounds f =
           spec_sound_rules (zcr f) (fast_spectral_centroid f)
             (low_energy f) (mid_energy f) (high_energy f)"
    unfolding fast_detect_background_sounds_def spec_sound_rules_def Let_def m7 m5 l6
    by (simp add: total_band_energy_def)
  have none: "?t = 0 \<longrightarrow>
            ''phone'' \<notin> set (fast_detect_background_sounds f)
          \<and> ''door'' \<notin> set (fast_detect_background_sounds f)
          \<and> ''mechanical'' \<notin> set (fast_detect_background_sounds f)"
    unfolding fast_detect_background_sounds_def Let_def m7 m5 l6
    by (simp add: guarded_ratio_def)
  show ?thesis using eq none by (simp add: detect_phone_frequencies_def)
qed

text \<open>
  Claim C7 says that each ratio rule treats the ratio as 0 when the total energy is 0,
  so that no rule divides by zero. The rules of the optimized classifier divide by the
  total energy without a check, unlike the spectral centroid of the same function and
  the phone rule of the full analyzer. On a silent clip, all band energies 0, the
  quotients of the phone rule and of the door rule are \<open>0 / 0\<close>: numpy yields NaN, not
  0. NaN compares false, so no label is returned.
\<close>

theorem sound_rules_divide_by_zero:
  "total_band_energy
     \<lparr>low_energy = 0, mid_energy = 0, high_energy = 0, weighted_sum = 0, zcr = 0\<rparr> = 0
   \<and> np_div
        (mid_energy
           \<lparr>low_energy = 0, mid_energy = 0, high_energy = 0, weighted_sum = 0, zcr = 0\<rparr>)
        (total_band_energy
           \<lparr>low_energy = 0, mid_energy = 0, high_energy = 0, weighted_sum = 0, zcr = 0\<rparr>)
      = NaN
   \<and> np_div
        (low_energy
           \<lparr>low_energy = 0, mid_energy = 0, high_energy = 0, weighted_sum = 0, zcr = 0\<rparr>)
        (total_band_energy
           \<lparr>low_energy = 0, mid_energy = 0, high_energy = 0, weighted_sum = 0, zcr = 0\<rparr>)
      = NaN
   \<and> fast_spectral_centroid
        \<lparr>low_energy = 0, mid_energy = 0, high_energy = 0, weighted_sum = 0, zcr = 0\<rparr> < 500
   \<and> fast_detect_background_sounds
        \<lparr>low_energy = 0, mid_energy = 0, high_energy = 0, weighted_sum = 0, zcr = 0\<rparr> = []"
  by (simp add: total_band_energy_def np_div_def fast_spectral_centroid_def
      fast_detect_background_sounds_def)

text \<open>A baseline whose windows all have the same energy has that energy as every percentile.\<close>

lemma percentile_const:
  assumes "xs \<noteq> []" and "\<forall>x \<in> set xs. x = c" and "0 \<le> q" and "q \<le> 100"
  shows "percentile xs q = Some c"
proof -
  let ?arr = "sort xs"
  let ?n = "length ?arr"
  let ?v = "real (?n - 1) * (q / 100)"
  let ?p = "nat \<lfloor>?v\<rfloor>"
  let ?nx = "min (?p + 1) (?n - 1)"
  have n: "0 < ?n" using assms(1) by simp
  have all: "\<And>i. i < ?n \<Longrightarrow> ?arr ! i = c"
    using assms(2) by (metis nth_mem set_sort)
  have "?v \<le> real (?n - 1)"
    using assms(3,4) by (simp add: mult_left_mono)
  then have "\<lfloor>?v\<rfloor> \<le> int (?n - 1)" by linarith
  then have p: "?p < ?n" using n by linarith
  have "?nx \<le> ?n - 1" by (rule min.cobounded2)
  then have nx: "?nx < ?n" using n by linarith
  have "?arr ! ?p = c" "?arr ! ?nx = c" using all p nx by blast+
  then show ?thesis using assms(1) by (simp add: percentile_def Let_def)
qed

text \<open>
  Claim C4, as stated: calibration would fail, and produce no profile, for a baseline of
  fewer than two windows and for a silent baseline. It returns a profile for a baseline
  of one window and for a silent baseline of three windows.
\<close>

theorem calibrate_without_typed_errors_counterexample:
  "calibrate (1 / 2) [1 / 2]
     = Some \<lparr>low = 1, medium = 101 / 100, high = 102 / 100,
             th_noise_floor = 1 / 2, th_noise_ceiling = 1 / 2\<rparr>
   \<and> calibrate 0 [0, 0, 0]
     = Some \<lparr>low = 0, medium = 1 / 100, high = 2 / 100,
             th_noise_floor = 0, th_noise_ceiling = 0\<rparr>"
  using percentile_const [of "[1 / 2]" "1 / 2" 10] percentile_const [of "[1 / 2]" "1 / 2" 90]
    percentile_const [of "[0, 0, 0]" 0 10] percentile_const [of "[0, 0, 0]" 0 90]
  by (simp add: calibrate_def analyze_background_noise_def calculate_thresholds_def Let_def)

text \<open>
  Claim C4, amended. The code has no typed errors for these baselines. A baseline of
  exactly one window of energy \<open>e\<close> yields the profile computed from noise floor and
  ceiling \<open>e\<close>; a silent baseline, every window 0 and so noise ceiling 0, yields
  \<open>low = 0\<close>, \<open>medium\<close> the minimum separation and \<open>high\<close> twice the minimum
  separation.
\<close>

theorem calibrate_one_window_or_silence:
  "calibrate rms [e]
     = Some (calculate_thresholds \<lparr>rms_energy = rms, noise_floor = e, noise_ceiling = e\<rparr>)
   \<and> fast_calibrate rms [e]
     = Some (fast_calculate_thresholds \<lparr>rms_energy = rms, noise_floor = e, noise_ceiling = e\<rparr>)
   \<and> (frame_energies \<noteq> [] \<and> (\<forall>x \<in> set frame_energies. x = 0) \<longrightarrow>
        calibrate rms frame_energies
          = Some \<lparr>low = 0, medium = 1 / 100, high = 2 / 100,
                  th_noise_floor = 0, th_noise_ceiling = 0\<rparr>
      \<and> fast_calibrate rms frame_energies
          = Some \<lparr>low = 0, medium = 1 / 1000, high = 2 / 1000,
                  th_noise_floor = 0, th_noise_ceiling = 0\<rparr>)"
proof -
  have one: "percentile [e] 10 = Some e" "percentile [e] 90 = Some e"
    by (simp_all add: percentile_const)
  have sil: "frame_energies \<noteq> [] \<and> (\<forall>x \<in> set frame_energies. x = 0) \<longrightarrow>
      percentile frame_energies 10 = Some 0 \<and> percentile frame_energies 90 = Some 0"
    by (simp add: percentile_const)
  show ?thesis using one sil
    by (auto simp add: calibrate_def fast_calibrate_def analyze_background_noise_def
        calculate_thresholds_def fast_calculate_thresholds_def Let_def)
qed

theorem calibrate_one_window_or_silence_witness:
  "[0, 0, 0 :: real] \<noteq> []
   \<and> fast_calibrate 0 [0, 0, 0]
       = Some \<lparr>low = 0, medium = 1 / 1000, high = 2 / 1000,
               th_noise_floor = 0, th_noise_ceiling = 0\<rparr>"
  using calibrate_one_window_or_silence [of 0 0 "[0, 0, 0]"]
  by simp

subsection \<open>Frame analysis and the alert tracks\<close>

text \<open>
  The keys of one subject differ when the alert types differ, a call of the deduplicator
  changes the entry of its own key only, and that entry depends on the entry before the
  call only. Each block of checks therefore leaves the tracks of the other alert types
  as they are.
\<close>

lemma alert_key_same_user:
  "(alert_key user_id t = alert_key user_id t') = (t = t')"
  by (simp add: alert_key_def)

lemma should_trigger_alert_other_key:
  "key \<noteq> alert_key user_id alert_type \<Longrightarrow>
     snd (should_trigger_alert now states user_id alert_type c) key = states key"
  by (simp add: should_trigger_alert_def Let_def)

lemma should_trigger_alert_own_key:
  "states (alert_key user_id alert_type) = states' (alert_key user_id alert_type) \<Longrightarrow>
     snd (should_trigger_alert now states user_id alert_type c) (alert_key user_id alert_type)
       = snd (should_trigger_alert now states' user_id alert_type c) (alert_key user_id alert_type)"
  by (simp add: should_trigger_alert_def get_state_def Let_def)

lemma check_condition_states:
  "snd (check_condition now user_id alert_type c acc)
     = snd (should_trigger_alert now (snd acc) user_id alert_type c)"
  by (cases acc) (simp add: check_condition_def Let_def split: prod.splits)

lemma check_condition_other_key:
  "t \<noteq> alert_type \<Longrightarrow>
     snd (check_condition now user_id alert_type c acc) (alert_key user_id t)
       = snd acc (alert_key user_id t)"
  by (simp add: check_condition_states should_trigger_alert_other_key alert_key_same_user)

lemma check_multiple_faces_other_key:
  "t \<noteq> ''Multiple faces found'' \<Longrightarrow>
     snd (check_multiple_faces clock obs user_id acc) (alert_key user_id t)
       = snd acc (alert_key user_id t)"
  by (simp add: check_multiple_faces_def check_condition_other_key)

lemma check_face_blocked_other_key:
  "t \<noteq> ''Face partially blocked'' \<Longrightarrow>
     snd (check_face_blocked clock obs user_id acc) (alert_key user_id t)
       = snd acc (alert_key user_id t)"
  by (simp add: check_face_blocked_def check_condition_other_key split: list.split)

lemma check_face_mismatch_other_key:
  "t \<noteq> ''Face mismatch detected'' \<Longrightarrow>
     snd (check_face_mismatch clock obs user_id acc) (alert_key user_id t)
       = snd acc (alert_key user_id t)"
  by (simp add: check_face_mismatch_def check_condition_other_key split: matching_outcome.split)

lemma check_condition_own_key:
  "snd acc (alert_key user_id alert_type) = states (alert_key user_id alert_type) \<Longrightarrow>
     snd (check_condition now user_id alert_type c acc) (alert_key user_id alert_type)
       = snd (should_trigger_alert now states user_id alert_type c) (alert_key user_id alert_type)"
  unfolding check_condition_states by (rule should_trigger_alert_own_key)

lemma face_checks_not_detected:
  "snd (face_checks clock states obs user_id) (alert_key user_id ''Face not detected'')
     = snd (should_trigger_alert (clock 0) states user_id ''Face not detected''
              (face_count obs = 0)) (alert_key user_id ''Face not detected'')"
  by (simp add: face_checks_def check_face_mismatch_other_key check_face_blocked_other_key
      check_multiple_faces_other_key check_condition_states)

lemma face_checks_no_face:
  "face_count obs = 0 \<Longrightarrow> t \<noteq> ''Face not detected'' \<Longrightarrow>
     snd (face_checks clock states obs user_id) (alert_key user_id t)
       = states (alert_key user_id t)"
  by (simp add: face_checks_def check_condition_other_key)

lemma face_checks_multiple:
  assumes "face_count obs > 0"
  shows "snd (face_checks clock states obs user_id) (alert_key user_id ''Multiple faces found'')
     = snd (should_trigger_alert (clock 1) states user_id ''Multiple faces found''
              (face_count obs > 1)) (alert_key user_id ''Multiple faces found'')"
proof -
  let ?a0 = "check_condition (clock 0) user_id ''Face not detected'' False ([], states)"
  have k0: "snd ?a0 (alert_key user_id ''Multiple faces found'')
              = states (alert_key user_id ''Multiple faces found'')"
    by (simp add: check_condition_other_key)
  have "snd (check_multiple_faces clock obs user_id ?a0) (alert_key user_id ''Multiple faces found'')
      = snd (should_trigger_alert (clock 1) states user_id ''Multiple faces found''
              (face_count obs > 1)) (alert_key user_id ''Multiple faces found'')"
    unfolding check_multiple_faces_def
    using check_condition_own_key
        [where acc = "?a0" and states = states and user_id = user_id
           and alert_type = "''Multiple faces found''", OF k0]
    by simp
  then show ?thesis using assms
    by (simp add: face_checks_def check_face_mismatch_other_key check_face_blocked_other_key)
qed

lemma face_checks_blocked:
  assumes "face_count obs > 0" and "face_landmarks obs = (left_eye, right_eye) # others"
  shows "snd (face_checks clock states obs user_id) (alert_key user_id ''Face partially blocked'')
     = snd (should_trigger_alert (clock 2) states user_id ''Face partially blocked''
              (left_eye < 6 \<or> right_eye < 6)) (alert_key user_id ''Face partially blocked'')"
proof -
  let ?a1 = "check_multiple_faces clock obs user_id
               (check_condition (clock 0) user_id ''Face not detected'' False ([], states))"
  have k1: "snd ?a1 (alert_key user_id ''Face partially blocked'')
              = states (alert_key user_id ''Face partially blocked'')"
    by (simp add: check_multiple_faces_other_key check_condition_other_key)
  have "snd (check_face_blocked clock obs user_id ?a1) (alert_key user_id ''Face partially blocked'')
      = snd (should_trigger_alert (clock 2) states user_id ''Face partially blocked''
              (left_eye < 6 \<or> right_eye < 6)) (alert_key user_id ''Face partially blocked'')"
    unfolding check_face_blocked_def
    using check_condition_own_key
        [where acc = "?a1" and states = states and user_id = user_id
           and alert_type = "''Face partially blocked''", OF k1] assms(2)
    by simp
  then show ?thesis using assms(1)
    by (simp add: face_checks_def check_face_mismatch_other_key)
qed

lemma face_checks_blocked_skipped:
  assumes "face_count obs > 0" and "face_landmarks obs = []"
  shows "snd (face_checks clock states obs user_id) (alert_key user_id ''Face partially blocked'')
     = states (alert_key user_id ''Face partially blocked'')"
  using assms
  by (simp add: face_checks_def check_face_mismatch_other_key check_face_blocked_def
      check_multiple_faces_other_key check_condition_other_key)

lemma face_checks_mismatch:
  assumes "face_count obs > 0" and "reference_encoding obs"
    and "face_matching obs = FaceDistance d"
  shows "snd (face_checks clock states obs user_id) (alert_key user_id ''Face mismatch detected'')
     = snd (should_trigger_alert (clock 3) states user_id ''Face mismatch detected''
              (d > 6 / 10)) (alert_key user_id ''Face mismatch detected'')"
proof -
  let ?a2 = "check_face_blocked clock obs user_id
               (check_multiple_faces clock obs user_id
                  (check_condition (clock 0) user_id ''Face not detected'' False ([], states)))"
  have k2: "snd ?a2 (alert_key user_id ''Face mismatch detected'')
              = states (alert_key user_id ''Face mismatch detected'')"
    by (simp add: check_face_blocked_other_key check_multiple_faces_other_key
        check_condition_other_key)
  have "snd (check_face_mismatch clock obs user_id ?a2) (alert_key user_id ''Face mismatch detected'')
      = snd (should_trigger_alert (clock 3) states user_id ''Face mismatch detected''
              (d > 6 / 10)) (alert_key user_id ''Face mismatch detected'')"
    unfolding check_face_mismatch_def
    using check_condition_own_key
        [where acc = "?a2" and states = states and user_id = user_id
           and alert_type = "''Face mismatch detected''", OF k2] assms(2,3)
    by simp
  then show ?thesis using assms(1)
    by (simp add: face_checks_def)
qed

lemma face_checks_mismatch_skipped:
  assumes "face_count obs > 0"
    and "\<not> reference_encoding obs \<or> face_matching obs = NoEncoding
         \<or> face_matching obs = MatchingRaises"
  shows "snd (face_checks clock states obs user_id) (alert_key user_id ''Face mismatch detected'')
     = states (alert_key user_id ''Face mismatch detected'')"
  using assms
  by (auto simp add: face_checks_def check_face_mismatch_def check_face_blocked_other_key
      check_multiple_faces_other_key check_condition_other_key)

lemma analyze_frame_states:
  "decode obs = Decoded \<Longrightarrow> \<not> detection_raises obs \<Longrightarrow>
     snd (analyze_frame clock states obs user_id) = snd (face_checks clock states obs user_id)"
  by (simp add: analyze_frame_def analyze_frame_body_def Let_def split: prod.splits)

text \<open>
  Claim C6, as stated: on every tick each of the four conditions is pushed through the
  deduplicator, so a condition that is false resets its track. With the track of
  multiple faces active, a tick without any face, on which the condition is false,
  leaves that track active.
\<close>

theorem no_face_keeps_multiple_faces_active_counterexample:
  "face_count \<lparr>decode = Decoded, detection_raises = False, face_count = 0, face_landmarks = [],
       reference_encoding = False, face_matching = NoEncoding, frame_saved = True\<rparr> = 0
   \<and> active (get_state
        (snd (analyze_frame (\<lambda>k. 105)
           [alert_key ''u1'' ''Multiple faces found'' \<mapsto> \<lparr>last_time = 100, active = True\<rparr>]
           \<lparr>decode = Decoded, detection_raises = False, face_count = 0, face_landmarks = [],
            reference_encoding = False, face_matching = NoEncoding, frame_saved = True\<rparr> ''u1''))
        (alert_key ''u1'' ''Multiple faces found''))"
  by (simp add: analyze_frame_states face_checks_no_face get_state_def)

text \<open>
  Claim C6, amended. On every tick whose frame is decoded, the condition of a missing
  face is pushed through the deduplicator with its truth value, so a tick with a face
  resets that track. The three other conditions are pushed only on a tick with at least
  one face: multiple faces with its truth value; a blocked face with its truth value
  when the frame has landmarks; a mismatch with its truth value when a reference
  encoding exists and the face of the frame was encoded. A condition that is not
  pushed leaves its track unchanged: on a tick without a face the tracks of the three
  other conditions keep their state.
\<close>

theorem face_checks_tracks:
  assumes "decode obs = Decoded" and "\<not> detection_raises obs"
  shows
    "snd (analyze_frame clock states obs user_id) (alert_key user_id ''Face not detected'')
       = snd (should_trigger_alert (clock 0) states user_id ''Face not detected''
                (face_count obs = 0)) (alert_key user_id ''Face not detected'')
     \<and> (face_count obs > 0 \<longrightarrow>
          \<not> active (get_state (snd (analyze_frame clock states obs user_id))
                      (alert_key user_id ''Face not detected'')))
     \<and> (face_count obs = 0 \<longrightarrow>
          (\<forall>t. t \<noteq> ''Face not detected'' \<longrightarrow>
             snd (analyze_frame clock states obs user_id) (alert_key user_id t)
               = states (alert_key user_id t)))
     \<and> (face_count obs > 0 \<longrightarrow>
          snd (analyze_frame clock states obs user_id) (alert_key user_id ''Multiple faces found'')
            = snd (should_trigger_alert (clock 1) states user_id ''Multiple faces found''
                     (face_count obs > 1)) (alert_key user_id ''Multiple faces found''))
     \<and> (face_count obs = 1 \<longrightarrow>
          \<not> active (get_state (snd (analyze_frame clock states obs user_id))
                      (alert_key user_id ''Multiple faces found'')))
     \<and> (face_count obs > 0 \<and> face_landmarks obs = (left_eye, right_eye) # others \<longrightarrow>
          snd (analyze_frame clock states obs user_id) (alert_key user_id ''Face partially blocked'')
            = snd (should_trigger_alert (clock 2) states user_id ''Face partially blocked''
                     (left_eye < 6 \<or> right_eye < 6)) (alert_key user_id ''Face partially blocked''))
     \<and> (face_count obs > 0 \<and> face_landmarks obs = [] \<longrightarrow>
          snd (analyze_frame clock states obs user_id) (alert_key user_id ''Face partially blocked'')
            = states (alert_key user_id ''Face partially blocked''))
     \<and> (face_count obs > 0 \<and> reference_encoding obs \<and> face_matching obs = FaceDistance d \<longrightarrow>
          snd (analyze_frame clock states obs user_id) (alert_key user_id ''Face mismatch detected'')
            = snd (should_trigger_alert (clock 3) states user_id ''Face mismatch detected''
                     (d > 6 / 10)) (alert_key user_id ''Face mismatch detected''))
     \<and> (face_count obs > 0
          \<and> (\<not> reference_encoding obs \<or> face_matching obs = NoEncoding
               \<or> face_matching obs = MatchingRaises) \<longrightarrow>
          snd (analyze_frame clock states obs user_id) (alert_key user_id ''Face mismatch detected'')
            = states (alert_key user_id ''Face mismatch detected''))"
proof -
  let ?final = "snd (analyze_frame clock states obs user_id)"
  have fin: "?final = snd (face_checks clock states obs user_id)"
    using assms by (rule analyze_frame_states)
  have inactive: "\<not> active (get_state (snd (should_trigger_alert now states user_id t False))
                     (alert_key user_id t))" for now t
    by (simp add: should_trigger_alert_def get_state_def Let_def)
  have nd: "?final (alert_key user_id ''Face not detected'')
       = snd (should_trigger_alert (clock 0) states user_id ''Face not detected''
                (face_count obs = 0)) (alert_key user_id ''Face not detected'')"
    unfolding fin by (rule face_checks_not_detected)
  have nd_inactive: "face_count obs > 0 \<longrightarrow>
      \<not> active (get_state ?final (alert_key user_id ''Face not detected''))"
  proof
    assume "face_count obs > 0"
    then have "get_state ?final (alert_key user_id ''Face not detected'')
        = get_state (snd (should_trigger_alert (clock 0) states user_id ''Face not detected''
                       False)) (alert_key user_id ''Face not detected'')"
      using nd by (simp add: get_state_def)
    then show "\<not> active (get_state ?final (alert_key user_id ''Face not detected''))"
      using inactive [of "clock 0" "''Face not detected''"] by simp
  qed
  have none: "face_count obs = 0 \<longrightarrow>
          (\<forall>t. t \<noteq> ''Face not detected'' \<longrightarrow>
             ?final (alert_key user_id t) = states (alert_key user_id t))"
    unfolding fin by (simp add: face_checks_no_face)
  have multi: "face_count obs > 0 \<longrightarrow>
          ?final (alert_key user_id ''Multiple faces found'')
            = snd (should_trigger_alert (clock 1) states user_id ''Multiple faces found''
                     (face_count obs > 1)) (alert_key user_id ''Multiple faces found'')"
    unfolding fin by (simp add: face_checks_multiple)
  have multi_inactive: "face_count obs = 1 \<longrightarrow>
          \<not> active (get_state ?final (alert_key user_id ''Multiple faces found''))"
  proof
    assume one: "face_count obs = 1"
    then have "get_state ?final (alert_key user_id ''Multiple faces found'')
        = get_state (snd (should_trigger_alert (clock 1) states user_id ''Multiple faces found''
                       False)) (alert_key user_id ''Multiple faces found'')"
      using multi by (simp add: get_state_def)
    then show "\<not> active (get_state ?final (alert_key user_id ''Multiple faces found''))"
      using inactive [of "clock 1" "''Multiple faces found''"] by simp
  qed
  have blocked: "face_count obs > 0 \<and> face_landmarks obs = (left_eye, right_eye) # others \<longrightarrow>
          ?final (alert_key user_id ''Face partially blocked'')
            = snd (should_trigger_alert (clock 2) states user_id ''Face partially blocked''
                     (left_eye < 6 \<or> right_eye < 6)) (alert_key user_id ''Face partially blocked'')"
    unfolding fin by (simp add: face_checks_blocked)
  have blocked_skip: "face_count obs > 0 \<and> face_landmarks obs = [] \<longrightarrow>
          ?final (alert_key user_id ''Face partially blocked'')
            = states (alert_key user_id ''Face partially blocked'')"
    unfolding fin by (simp add: face_checks_blocked_skipped)
  have mismatch: "face_count obs > 0 \<and> reference_encoding obs \<and> face_matching obs = FaceDistance d \<longrightarrow>
          ?final (alert_key user_id ''Face mismatch detected'')
            = snd (should_trigger_alert (clock 3) states user_id ''Face mismatch detected''
                     (d > 6 / 10)) (alert_key user_id ''Face mismatch detected'')"
    unfolding fin by (simp add: face_checks_mismatch)
  have mismatch_skip: "face_count obs > 0
          \<and> (\<not> reference_encoding obs \<or> face_matching obs = NoEncoding
               \<or> face_matching obs = MatchingRaises) \<longrightarrow>
          ?final (alert_key user_id ''Face mismatch detected'')
            = states (alert_key user_id ''Face mismatch detected'')"
    unfolding fin using face_checks_mismatch_skipped [of obs clock states user_id] by blast
  from nd nd_inactive none multi multi_inactive blocked blocked_skip mismatch mismatch_skip
  show ?thesis by (intro conjI)
qed

theorem face_checks_tracks_witness:
  "snd (analyze_frame (\<lambda>k. 105)
          [alert_key ''u1'' ''Multiple faces found'' \<mapsto> \<lparr>last_time = 100, active = True\<rparr>]
          \<lparr>decode = Decoded, detection_raises = False, face_count = 0, face_landmarks = [],
           reference_encoding = False, face_matching = NoEncoding, frame_saved = True\<rparr> ''u1'')
       (alert_key ''u1'' ''Multiple faces found'') = Some \<lparr>last_time = 100, active = True\<rparr>
   \<and> snd (analyze_frame (\<lambda>k. 105)
          [alert_key ''u1'' ''Multiple faces found'' \<mapsto> \<lparr>last_time = 100, active = True\<rparr>]
          \<lparr>decode = Decoded, detection_raises = False, face_count = 1,
           face_landmarks = [(6, 6)], reference_encoding = True,
           face_matching = FaceDistance (3 / 10), frame_saved = True\<rparr> ''u1'')
       (alert_key ''u1'' ''Multiple faces found'') = Some \<lparr>last_time = 105, active = False\<rparr>
   \<and> snd (analyze_frame (\<lambda>k. 105)
          [alert_key ''u1'' ''Multiple faces found'' \<mapsto> \<lparr>last_time = 100, active = True\<rparr>]
          \<lparr>decode = Decoded, detection_raises = False, face_count = 1,
           face_landmarks = [(6, 6)], reference_encoding = True,
           face_matching = FaceDistance (3 / 10), frame_saved = True\<rparr> ''u1'')
       (alert_key ''u1'' ''Face mismatch detected'') = Some \<lparr>last_time = 105, active = False\<rparr>
   \<and> snd (analyze_frame (\<lambda>k. 105)
          [alert_key ''u1'' ''Multiple faces found'' \<mapsto> \<lparr>last_time = 100, active = True\<rparr>]
          \<lparr>decode = Decoded, detection_raises = False, face_count = 1,
           face_landmarks = [], reference_encoding = False,
           face_matching = NoEncoding, frame_saved = True\<rparr> ''u1'')
       (alert_key ''u1'' ''Face partially blocked'') = None"
  using
    face_checks_tracks [of
      "\<lparr>decode = Decoded, detection_raises = False, face_count = 0, face_landmarks = [],
        reference_encoding = False, face_matching = NoEncoding, frame_saved = True\<rparr>"
      "\<lambda>k. 105"
      "[alert_key ''u1'' ''Multiple faces found'' \<mapsto> \<lparr>last_time = 100, active = True\<rparr>]"
      "''u1''"]
    face_checks_tracks [of
      "\<lparr>decode = Decoded, detection_raises = False, face_count = 1,
        face_landmarks = [(6, 6)], reference_encoding = True,
        face_matching = FaceDistance (3 / 10), frame_saved = True\<rparr>"
      "\<lambda>k. 105"
      "[alert_key ''u1'' ''Multiple faces found'' \<mapsto> \<lparr>last_time = 100, active = True\<rparr>]"
      "''u1''" 6 6 "[]" "3 / 10"]
    face_checks_tracks [of
      "\<lparr>decode = Decoded, detection_raises = False, face_count = 1,
        face_landmarks = [], reference_encoding = False,
        face_matching = NoEncoding, frame_saved = True\<rparr>"
      "\<lambda>k. 105"
      "[alert_key ''u1'' ''Multiple faces found'' \<mapsto> \<lparr>last_time = 100, active = True\<rparr>]"
      "''u1''"]
  by (simp add: should_trigger_alert_def get_state_def alert_key_def Let_def)

text \<open>
  When the frame cannot be decoded (the decoder returns nothing or raises) the result
  has status error and no violations, and the alert states are unchanged. The call
  fails to return exactly on a decoded frame whose detection does not raise, whose
  checks emit a violation and whose frame was saved.
\<close>

lemma analyze_frame_decode_failure:
  "decode obs \<noteq> Decoded \<Longrightarrow>
     analyze_frame clock states obs user_id
       = (Some \<lparr>status = ''error'', violations = []\<rparr>, states)"
  by (cases "decode obs") (simp_all add: analyze_frame_def analyze_frame_body_def)

lemma analyze_frame_never_returns_iff:
  "(fst (analyze_frame clock states obs user_id) = None)
     = (decode obs = Decoded \<and> \<not> detection_raises obs \<and> frame_saved obs
        \<and> fst (face_checks clock states obs user_id) \<noteq> [])"
  by (cases "decode obs")
     (auto simp add: analyze_frame_def analyze_frame_body_def Let_def
        log_analysis_complete_returns_def split: prod.splits)

text \<open>
  Claim C10 says that frame analysis always returns a result dictionary. On the first
  tick of a subject without a face, with the frame saved, the check emits the
  violation, the deduplicator marks the track active, and the call never returns:
  \<^verbatim>\<open>log_analysis_complete\<close> waits for the lock that it holds itself.
\<close>

theorem analyze_frame_hangs_on_violation:
  "analyze_frame (\<lambda>k. 100) Map.empty
     \<lparr>decode = Decoded, detection_raises = False, face_count = 0, face_landmarks = [],
      reference_encoding = False, face_matching = NoEncoding, frame_saved = True\<rparr> ''u1''
   = (None, [alert_key ''u1'' ''Face not detected'' \<mapsto> \<lparr>last_time = 100, active = True\<rparr>])"
  by (simp add: analyze_frame_def analyze_frame_body_def face_checks_def check_condition_def
      should_trigger_alert_def get_state_def log_analysis_complete_returns_def Let_def)

end
